theory Spec2Isabelle
  imports Main "HOL-Library.Word"
begin

section \<open>IR base nodes of the CUDA fuser: data model\<close>

text \<open>
  The embedded file is \<^verbatim>\<open>torch/csrc/jit/codegen/cuda/ir_base_nodes.cpp\<close>. Its nodes
  live in an arena and refer to one another by pointer, and several of the properties
  below are about pointer identity, so the model has an explicit store: a statement
  pointer is an address, \<open>nullptr\<close> is \<open>None\<close>, and the store maps an address to the object
  that lives there.
\<close>

type_synonym addr = nat
type_synonym fusion_addr = nat
type_synonym StmtNameType = nat

text \<open>
  \<open>TORCH_INTERNAL_ASSERT\<close> and \<open>TORCH_CHECK\<close> throw; both carry the text of the failed
  condition or the message. Following a pointer that is null, or that does not point to
  a live object of the pointer's static type, is undefined behaviour in the source; the
  model makes it the error \<open>InvalidPointer\<close>, so that no theorem silently depends on it.
\<close>

datatype error =
    InternalAssert string
  | CheckFailed string
  | InvalidPointer

text \<open>
  Modelled from the spec: the enumerations \<open>ValType\<close>, \<open>DataType\<close> and \<open>ExprType\<close> are
  declared in a header that is not part of the sources. The source file names the kinds
  \<open>ValType::TensorView\<close>, \<open>ValType::Scalar\<close>, the node classes \<open>Bool\<close>, \<open>Double\<close>, \<open>Int\<close>
  and \<open>NamedScalar\<close>, and \<open>DataType::Null\<close>; the spec speaks of the kinds Scalar,
  TensorLike and NamedSymbolic "and others", of a data-type tag and of an operation-kind
  tag. Every kind that is not named stands behind the \<open>Other\<close> constructors.
\<close>

datatype ValType = TensorView | Scalar | NamedScalar | OtherValType nat

datatype DataType = DT_Double | DT_Int | DT_Bool | DT_Null | OtherDataType nat

datatype ExprType = UnaryOp | BinaryOp | OtherExprType nat

text \<open>
  \<open>Statement\<close> holds the name and the owning fusion. The spec: the identity is "optional
  before registration", hence the option. A member \<open>x_\<close> of the source is the field
  \<open>m_x\<close> here (a name cannot end in an underscore).
\<close>

record Statement =
  m_name :: "StmtNameType option"
  m_fusion :: "fusion_addr option"

text \<open>The members of \<open>Val\<close> that the source file reads or writes.\<close>

record Val = Statement +
  m_vtype :: ValType
  m_dtype :: DataType
  m_is_fusion_input :: bool
  m_is_fusion_output :: bool
  m_definition :: "addr option"
  m_uses :: "addr list"

text \<open>
  Modelled from the spec: the concrete classes \<open>Bool\<close>, \<open>Double\<close>, \<open>Int\<close> are declared
  elsewhere. A \<open>Val\<close> object in the store carries what this file asks of them: the
  literal's own "is this instance marked constant" flag (\<open>isConst()\<close>), and the integer
  that \<open>Int::value()\<close> hands to \<open>getInt\<close>, absent for a literal that holds none.
\<close>

record ValNode = Val +
  m_isConst :: bool
  m_value :: "64 word option"

record Expr = Statement +
  m_type :: ExprType
  m_inputs :: "addr list"
  m_outputs :: "addr list"

datatype obj = ValObj ValNode | ExprObj Expr

type_synonym heap = "addr \<Rightarrow> obj option"

text \<open>Dereferencing \<open>Val*\<close>, \<open>Expr*\<close>.\<close>

definition derefVal :: "heap \<Rightarrow> addr \<Rightarrow> error + ValNode" where
  "derefVal h p = (case h p of Some (ValObj v) \<Rightarrow> Inr v | _ \<Rightarrow> Inl InvalidPointer)"

definition derefExpr :: "heap \<Rightarrow> addr \<Rightarrow> error + Expr" where
  "derefExpr h p = (case h p of Some (ExprObj e) \<Rightarrow> Inr e | _ \<Rightarrow> Inl InvalidPointer)"

section \<open>Producer and consumer queries\<close>

text \<open>
  \<^verbatim>\<open>
  bool Val::isProducerOf(const Val* other) const {
    TORCH_INTERNAL_ASSERT(other != nullptr);
    TORCH_INTERNAL_ASSERT(fusion() == other->fusion());
    if (definition() == nullptr) { return false; }
    return std::any_of(definition()->inputs().begin(), definition()->inputs().end(),
        [other](const Val* input) { return input == other; });
  }
  bool Val::isConsumerOf(const Val* other) const { return other->isProducerOf(this); }
  \<close>
  Modelled from the spec: the accessors \<open>definition()\<close>, \<open>fusion()\<close> and \<open>inputs()\<close>
  are declared in a header that is not part of the sources; they read the producer, the
  owner and the ordered inputs, here the fields \<open>m_definition\<close>, \<open>m_fusion\<close> and
  \<open>m_inputs\<close>.
\<close>

definition Val_isProducerOf :: "heap \<Rightarrow> addr \<Rightarrow> addr option \<Rightarrow> error + bool" where
  "Val_isProducerOf h this other =
     (case derefVal h this of Inl e \<Rightarrow> Inl e | Inr self \<Rightarrow>
      (case other of None \<Rightarrow> Inl (InternalAssert ''other != nullptr'') | Some o_p \<Rightarrow>
       (case derefVal h o_p of Inl e \<Rightarrow> Inl e | Inr oth \<Rightarrow>
        if m_fusion self \<noteq> m_fusion oth
        then Inl (InternalAssert ''fusion() == other->fusion()'')
        else (case m_definition self of None \<Rightarrow> Inr False | Some d \<Rightarrow>
              (case derefExpr h d of Inl e \<Rightarrow> Inl e | Inr ex \<Rightarrow>
               Inr (list_ex (\<lambda>input. input = o_p) (m_inputs ex)))))))"

definition Val_isConsumerOf :: "heap \<Rightarrow> addr \<Rightarrow> addr option \<Rightarrow> error + bool" where
  "Val_isConsumerOf h this other =
     (case other of None \<Rightarrow> Inl InvalidPointer
      | Some o_p \<Rightarrow> Val_isProducerOf h o_p (Some this))"

section \<open>Constant analysis\<close>

text \<open>
  Modelled from the spec: \<open>isScalar()\<close> and \<open>isAnInt()\<close> are declared in the header of
  \<open>Val\<close>. The spec: \<open>isConstScalar\<close> "returns false immediately if the Val's kind is not
  a scalar kind", the scalar kinds being the scalar literals and the named symbolic
  scalars; \<open>getInt\<close> asks for "an integer-typed" scalar.
\<close>

definition Val_isScalar :: "'a Val_scheme \<Rightarrow> bool" where
  "Val_isScalar v = (m_vtype v = Scalar \<or> m_vtype v = NamedScalar)"

definition Val_isAnInt :: "'a Val_scheme \<Rightarrow> bool" where
  "Val_isAnInt v = (Val_isScalar v \<and> m_dtype v = DT_Int)"

text \<open>
  The handlers of \<open>ConstCheck\<close> update the member \<open>is_const_\<close>; here each takes its value
  and returns the new one.
  \<^verbatim>\<open>
  void handle(const Bool* b) override { is_const_ = is_const_ && b->isConst(); }
  void handle(const Double* d) override { is_const_ = is_const_ && d->isConst(); }
  void handle(const Int* i) override { is_const_ = is_const_ && i->isConst(); }
  void handle(const NamedScalar* ns) override { is_const_ = is_const_ && false; }
  \<close>
\<close>

definition ConstCheck_handle_Bool :: "ValNode \<Rightarrow> bool \<Rightarrow> bool" where
  "ConstCheck_handle_Bool b is_const = (is_const \<and> m_isConst b)"

definition ConstCheck_handle_Double :: "ValNode \<Rightarrow> bool \<Rightarrow> bool" where
  "ConstCheck_handle_Double d is_const = (is_const \<and> m_isConst d)"

definition ConstCheck_handle_Int :: "ValNode \<Rightarrow> bool \<Rightarrow> bool" where
  "ConstCheck_handle_Int i is_const = (is_const \<and> m_isConst i)"

definition ConstCheck_handle_NamedScalar :: "ValNode \<Rightarrow> bool \<Rightarrow> bool" where
  "ConstCheck_handle_NamedScalar ns is_const = (is_const \<and> False)"

text \<open>
  Modelled from the spec: \<open>OptOutConstDispatch::handle(const Val*)\<close> belongs to the
  dispatch header. The spec: "dispatch on its own concrete kind (falling into one of the
  leaf cases above, or leaving the result unconstrained/unchanged for kinds with no
  specific rule)". The concrete kind of a scalar literal is given by its two tags.
\<close>

definition OptOutConstDispatch_handle :: "ValNode \<Rightarrow> bool \<Rightarrow> bool" where
  "OptOutConstDispatch_handle val is_const =
     (case m_vtype val of
        Scalar \<Rightarrow>
          (case m_dtype val of
             DT_Bool \<Rightarrow> ConstCheck_handle_Bool val is_const
           | DT_Double \<Rightarrow> ConstCheck_handle_Double val is_const
           | DT_Int \<Rightarrow> ConstCheck_handle_Int val is_const
           | _ \<Rightarrow> is_const)
      | NamedScalar \<Rightarrow> ConstCheck_handle_NamedScalar val is_const
      | _ \<Rightarrow> is_const)"

text \<open>
  \<^verbatim>\<open>
  void handle(const Expr* expr) override {
    for (auto inp : expr->inputs()) { handle(inp); }
  }
  void handle(const Val* val) override {
    if (val->definition() != nullptr) { handle(val->definition()); }
    else { OptOutConstDispatch::handle(val); }
  }
  \<close>
  The two handlers call each other along the producer edges, and nothing in the source
  stops the walk on a cyclic store. The first argument bounds the nesting of
  \<open>handle(const Val*)\<close>: \<open>None\<close> says that the walk did not return within that depth.
\<close>

fun ConstCheck_handle_Val :: "nat \<Rightarrow> heap \<Rightarrow> addr \<Rightarrow> bool \<Rightarrow> (error + bool) option"
  and ConstCheck_handle_Expr :: "nat \<Rightarrow> heap \<Rightarrow> addr \<Rightarrow> bool \<Rightarrow> (error + bool) option"
  and ConstCheck_handle_inputs :: "nat \<Rightarrow> heap \<Rightarrow> addr list \<Rightarrow> bool \<Rightarrow> (error + bool) option"
where
  "ConstCheck_handle_Val 0 h val is_const = None"
| "ConstCheck_handle_Val (Suc n) h val is_const =
     (case derefVal h val of
        Inl e \<Rightarrow> Some (Inl e)
      | Inr v \<Rightarrow>
          (case m_definition v of
             Some d \<Rightarrow> ConstCheck_handle_Expr n h d is_const
           | None \<Rightarrow> Some (Inr (OptOutConstDispatch_handle v is_const))))"
| "ConstCheck_handle_Expr n h expr is_const =
     (case derefExpr h expr of
        Inl e \<Rightarrow> Some (Inl e)
      | Inr ex \<Rightarrow> ConstCheck_handle_inputs n h (m_inputs ex) is_const)"
| "ConstCheck_handle_inputs n h [] is_const = Some (Inr is_const)"
| "ConstCheck_handle_inputs n h (inp # inps) is_const =
     (case ConstCheck_handle_Val n h inp is_const of
        Some (Inr is_const') \<Rightarrow> ConstCheck_handle_inputs n h inps is_const'
      | r \<Rightarrow> r)"

text \<open>
  \<^verbatim>\<open>
  static bool isConst(const Val* val) { ConstCheck cc; cc.handle(val); return cc.is_const_; }
  bool Val::isConstScalar() const {
    if (!isScalar()) return false;
    return ConstCheck::isConst(this);
  }
  \<close>
\<close>

definition ConstCheck_isConst :: "nat \<Rightarrow> heap \<Rightarrow> addr \<Rightarrow> (error + bool) option" where
  "ConstCheck_isConst n h val = ConstCheck_handle_Val n h val True"

definition Val_isConstScalar :: "nat \<Rightarrow> heap \<Rightarrow> addr \<Rightarrow> (error + bool) option" where
  "Val_isConstScalar n h this =
     (case derefVal h this of
        Inl e \<Rightarrow> Some (Inl e)
      | Inr self \<Rightarrow>
          if \<not> Val_isScalar self then Some (Inr False)
          else ConstCheck_isConst n h this)"

text \<open>
  \<^verbatim>\<open>
  c10::optional<int64_t> Val::getInt() const {
    if (isConstScalar() && isAnInt()) {
      if (this->getValType() == ValType::Scalar) { return this->as<Int>()->value(); }
    }
    return c10::optional<int64_t>();
  }
  bool Val::isZeroInt() const {
    auto int_val = getInt();
    return int_val.has_value() && int_val.value() == 0;
  }
  bool Val::isOneInt() const {
    auto int_val = getInt();
    return int_val.has_value() && int_val.value() == 1;
  }
  \<close>
\<close>

definition Val_getInt :: "nat \<Rightarrow> heap \<Rightarrow> addr \<Rightarrow> (error + 64 word option) option" where
  "Val_getInt n h this =
     (case derefVal h this of
        Inl e \<Rightarrow> Some (Inl e)
      | Inr self \<Rightarrow>
          (case Val_isConstScalar n h this of
             None \<Rightarrow> None
           | Some (Inl e) \<Rightarrow> Some (Inl e)
           | Some (Inr cs) \<Rightarrow>
               if cs \<and> Val_isAnInt self
               then (if m_vtype self = Scalar then Some (Inr (m_value self))
                     else Some (Inr None))
               else Some (Inr None)))"

definition Val_isZeroInt :: "nat \<Rightarrow> heap \<Rightarrow> addr \<Rightarrow> (error + bool) option" where
  "Val_isZeroInt n h this =
     (case Val_getInt n h this of
        None \<Rightarrow> None
      | Some (Inl e) \<Rightarrow> Some (Inl e)
      | Some (Inr int_val) \<Rightarrow>
          Some (Inr (case int_val of None \<Rightarrow> False | Some x \<Rightarrow> x = 0)))"

definition Val_isOneInt :: "nat \<Rightarrow> heap \<Rightarrow> addr \<Rightarrow> (error + bool) option" where
  "Val_isOneInt n h this =
     (case Val_getInt n h this of
        None \<Rightarrow> None
      | Some (Inl e) \<Rightarrow> Some (Inl e)
      | Some (Inr int_val) \<Rightarrow>
          Some (Inr (case int_val of None \<Rightarrow> False | Some x \<Rightarrow> x = 1)))"

section \<open>The owning fusion: construction and the use lists\<close>

text \<open>
  Modelled from the spec: the class \<open>Fusion\<close> and \<open>FusionGuard\<close> are not part of the
  sources. The spec gives the boundary: the context's "cache-validity flag"
  (\<open>isTVUseInfoValid()\<close>), whether the context is "currently mid-recomputation"
  (\<open>isUpdatingTVUseInfo()\<close>), the "full recomputation of consumer lists across the graph"
  (\<open>resetTvUses()\<close>), \<open>registerVal\<close>, which "assigns and returns a unique identity", and
  the "currently active context", which may be none (\<open>FusionGuard::getCurFusion()\<close>).
  The two flags are fields of the fusion; \<open>resetTvUses\<close> and \<open>registerVal\<close> are
  parameters of the functions that call them, since what they do to the world is
  not given.
\<close>

record Fusion =
  isTVUseInfoValid :: bool
  isUpdatingTVUseInfo :: bool

record world =
  stmts :: heap
  fusions :: "fusion_addr \<Rightarrow> Fusion option"
  getCurFusion :: "fusion_addr option"

definition derefFusion :: "world \<Rightarrow> fusion_addr option \<Rightarrow> error + fusion_addr \<times> Fusion" where
  "derefFusion w p =
     (case p of
        None \<Rightarrow> Inl InvalidPointer
      | Some f \<Rightarrow> (case fusions w f of None \<Rightarrow> Inl InvalidPointer | Some fu \<Rightarrow> Inr (f, fu)))"

text \<open>The calls that leave this file and that a property counts.\<close>

datatype call = ResetTvUses fusion_addr

text \<open>
  \<^verbatim>\<open>
  const std::vector<Expr*>& Val::uses() const {
    if (vtype_ == ValType::TensorView) {
      if (!fusion()->isTVUseInfoValid() && !fusion()->isUpdatingTVUseInfo()) {
        fusion()->resetTvUses();
      }
    }
    return uses_;
  }
  \<close>
  The result has the returned list (read after the recomputation, which may have
  rewritten it), the world after the call, and the calls made to \<open>resetTvUses\<close>.
\<close>

definition Val_uses ::
  "(fusion_addr \<Rightarrow> world \<Rightarrow> world) \<Rightarrow> world \<Rightarrow> addr \<Rightarrow> (error + addr list) \<times> world \<times> call list"
where
  "Val_uses resetTvUses w this =
     (case derefVal (stmts w) this of
        Inl e \<Rightarrow> (Inl e, w, [])
      | Inr self \<Rightarrow>
          if m_vtype self = TensorView then
            (case derefFusion w (m_fusion self) of
               Inl e \<Rightarrow> (Inl e, w, [])
             | Inr (f, fu) \<Rightarrow>
                 if \<not> isTVUseInfoValid fu \<and> \<not> isUpdatingTVUseInfo fu then
                   (let w' = resetTvUses f w in
                    (case derefVal (stmts w') this of
                       Inl e \<Rightarrow> (Inl e, w', [ResetTvUses f])
                     | Inr self' \<Rightarrow> (Inr (m_uses self'), w', [ResetTvUses f])))
                 else (Inr (m_uses self), w, []))
          else (Inr (m_uses self), w, []))"

text \<open>
  \<^verbatim>\<open>
  Val::Val(ValType _vtype, DataType _dtype, bool register_val)
      : vtype_(_vtype), dtype_(_dtype) {
    Fusion* fusion = FusionGuard::getCurFusion();
    TORCH_CHECK(fusion != nullptr, "No active fusion group found when creating a Val.");
    fusion_ = fusion;
    if (register_val) { name_ = fusion_->registerVal(this); }
  }
  Expr::Expr(ExprType type) : type_{type} {
    Fusion* fusion = FusionGuard::getCurFusion();
    if (fusion == nullptr)
      TORCH_CHECK(false, "No active fusion group found when creating an Expr.");
    fusion_ = fusion;
  }
  \<close>
  Modelled from the spec: the members that the constructors do not mention take the
  initial values of the class declaration, which is not part of the sources: no name, no
  producer, no consumers, both graph flags false, no inputs and no outputs.
\<close>

definition Val_ctor ::
  "(fusion_addr \<Rightarrow> addr \<Rightarrow> world \<Rightarrow> StmtNameType \<times> world) \<Rightarrow>
     world \<Rightarrow> addr \<Rightarrow> ValType \<Rightarrow> DataType \<Rightarrow> bool \<Rightarrow> error + Val \<times> world"
where
  "Val_ctor registerVal w this vtype dtype register_val =
     (case getCurFusion w of
        None \<Rightarrow> Inl (CheckFailed ''No active fusion group found when creating a Val.'')
      | Some fusion \<Rightarrow>
          (let self = \<lparr>m_name = None, m_fusion = Some fusion, m_vtype = vtype, m_dtype = dtype,
                       m_is_fusion_input = False, m_is_fusion_output = False,
                       m_definition = None, m_uses = []\<rparr>
           in if register_val
              then (case registerVal fusion this w of
                      (n, w') \<Rightarrow> Inr (self\<lparr>m_name := Some n\<rparr>, w'))
              else Inr (self, w)))"

definition Expr_ctor :: "world \<Rightarrow> ExprType \<Rightarrow> error + Expr" where
  "Expr_ctor w type =
     (case getCurFusion w of
        None \<Rightarrow> Inl (CheckFailed ''No active fusion group found when creating an Expr.'')
      | Some fusion \<Rightarrow>
          Inr \<lparr>m_name = None, m_fusion = Some fusion, m_type = type,
               m_inputs = [], m_outputs = []\<rparr>)"

section \<open>Cloning\<close>

text \<open>
  Modelled from the spec: \<open>IrCloner\<close> is declared elsewhere. The spec: a "deep-copy
  helper that preserves an old-identity to new-identity map", with \<open>registerClone(old,
  new)\<close>, which "registers the (source, new) pair into the cloner's identity map". The
  source asks the cloner for a fusion (\<open>ir_cloner->fusion()\<close>), so the cloner holds one.
\<close>

record IrCloner =
  IrCloner_fusion :: "fusion_addr option"
  clones_map :: "addr \<Rightarrow> addr option"

definition registerClone :: "IrCloner \<Rightarrow> addr \<Rightarrow> addr \<Rightarrow> IrCloner" where
  "registerClone ir_cloner src clone = ir_cloner\<lparr>clones_map := (clones_map ir_cloner)(src \<mapsto> clone)\<rparr>"

text \<open>
  \<^verbatim>\<open>
  Statement::Statement(const Statement* src, IrCloner* ir_cloner) {
    name_ = src->name_;
    fusion_ = ir_cloner->fusion();
    ir_cloner->registerClone(src, this);
  }
  Val::Val(const Val* src, IrCloner* ir_cloner)
      : Statement(src, ir_cloner), vtype_(src->vtype_), dtype_(src->dtype_),
        is_fusion_input_(src->is_fusion_input_), is_fusion_output_(src->is_fusion_output_) {}
  \<close>
  A clone constructor takes the source object, its address \<open>src_p\<close>, the address \<open>this\<close>
  of the object under construction and the cloner; it returns the part of the new object
  that it builds, and the cloner.
\<close>

definition Statement_clone ::
  "'a Statement_scheme \<Rightarrow> addr \<Rightarrow> addr \<Rightarrow> IrCloner \<Rightarrow> Statement \<times> IrCloner" where
  "Statement_clone src src_p this ir_cloner =
     (\<lparr>m_name = m_name src, m_fusion = IrCloner_fusion ir_cloner\<rparr>,
      registerClone ir_cloner src_p this)"

definition Val_clone ::
  "'a Val_scheme \<Rightarrow> addr \<Rightarrow> addr \<Rightarrow> IrCloner \<Rightarrow> Val \<times> IrCloner" where
  "Val_clone src src_p this ir_cloner =
     (case Statement_clone src src_p this ir_cloner of
        (base, ir_cloner') \<Rightarrow>
          (\<lparr>m_name = m_name base, m_fusion = m_fusion base,
            m_vtype = m_vtype src, m_dtype = m_dtype src,
            m_is_fusion_input = m_is_fusion_input src,
            m_is_fusion_output = m_is_fusion_output src,
            m_definition = None, m_uses = []\<rparr>,
           ir_cloner'))"

section \<open>Structural equality of expressions\<close>

text \<open>
  \<^verbatim>\<open>
  bool Expr::sameAs(const Statement* other) const {
    if (this == other) { return true; }
    if (!other->isA<Expr>()) { return false; }
    const Expr* other_expr = other->as<Expr>();
    if (getExprType() != other_expr->getExprType()) { return false; }
    if (inputs().size() != other_expr->inputs().size() ||
        outputs().size() != other_expr->outputs().size()) { return false; }
    for (const auto i : c10::irange(inputs().size())) {
      if (!input(i)->sameAs(other_expr->input(i))) { return false; }
    }
    return true;
  }
  \<close>
  \<open>input(i)->sameAs\<close> is the virtual \<open>sameAs\<close> of the input's own class, none of which
  is in this file: it is the parameter \<open>Val_sameAs\<close>, from two addresses to an error or
  a truth value. \<open>input(i)\<close> outside the vector is an invalid read.
\<close>

definition Expr_input :: "Expr \<Rightarrow> nat \<Rightarrow> error + addr" where
  "Expr_input e i = (if i < length (m_inputs e) then Inr (m_inputs e ! i) else Inl InvalidPointer)"

function Expr_sameAs_loop ::
  "(addr \<Rightarrow> addr \<Rightarrow> error + bool) \<Rightarrow> Expr \<Rightarrow> Expr \<Rightarrow> nat \<Rightarrow> error + bool" where
  "Expr_sameAs_loop Val_sameAs self other_expr i =
     (if i < length (m_inputs self) then
        (case Expr_input self i of Inl e \<Rightarrow> Inl e | Inr a \<Rightarrow>
         (case Expr_input other_expr i of Inl e \<Rightarrow> Inl e | Inr b \<Rightarrow>
          (case Val_sameAs a b of Inl e \<Rightarrow> Inl e | Inr same \<Rightarrow>
           if \<not> same then Inr False
           else Expr_sameAs_loop Val_sameAs self other_expr (Suc i))))
      else Inr True)"
  by pat_completeness auto
termination
  by (relation "measure (\<lambda>(Val_sameAs, self, other_expr, i). length (m_inputs self) - i)") auto

declare Expr_sameAs_loop.simps [simp del]

definition Expr_sameAs ::
  "(addr \<Rightarrow> addr \<Rightarrow> error + bool) \<Rightarrow> heap \<Rightarrow> addr \<Rightarrow> addr \<Rightarrow> error + bool" where
  "Expr_sameAs Val_sameAs h this other =
     (case derefExpr h this of
        Inl e \<Rightarrow> Inl e
      | Inr self \<Rightarrow>
          if this = other then Inr True
          else (case h other of
                  None \<Rightarrow> Inl InvalidPointer
                | Some (ValObj v) \<Rightarrow> Inr False
                | Some (ExprObj other_expr) \<Rightarrow>
                    if m_type self \<noteq> m_type other_expr then Inr False
                    else if length (m_inputs self) \<noteq> length (m_inputs other_expr) \<or>
                            length (m_outputs self) \<noteq> length (m_outputs other_expr)
                    then Inr False
                    else Expr_sameAs_loop Val_sameAs self other_expr 0))"

section \<open>Well-formed stores\<close>

text \<open>
  The walk of \<open>ConstCheck\<close> returns on a store whose producer edges lead to live objects
  and do not form a cycle: \<open>rank\<close> decreases from a value to every input of its producer.
\<close>

definition acyclic_by :: "heap \<Rightarrow> (addr \<Rightarrow> nat) \<Rightarrow> bool" where
  "acyclic_by h rank \<longleftrightarrow>
     (\<forall>p v d. h p = Some (ValObj v) \<longrightarrow> m_definition v = Some d \<longrightarrow>
        (\<exists>e. h d = Some (ExprObj e) \<and>
             (\<forall>i \<in> set (m_inputs e). (\<exists>w. h i = Some (ValObj w)) \<and> rank i < rank p)))"

section \<open>A small graph\<close>

text \<open>
  The scenario of the spec: in fusion \<open>7\<close>, the integer literals \<open>a = 2\<close> at address \<open>0\<close>
  and \<open>b = 3\<close> at address \<open>1\<close>, both constant; the expression \<open>add\<close> at address \<open>2\<close>
  with inputs \<open>[a, b]\<close>; its output \<open>c\<close> at address \<open>3\<close>, an integer scalar with no
  constant flag and no literal value.
\<close>

definition int_literal :: "fusion_addr \<Rightarrow> StmtNameType \<Rightarrow> 64 word \<Rightarrow> ValNode" where
  "int_literal f n x =
     \<lparr>m_name = Some n, m_fusion = Some f, m_vtype = Scalar, m_dtype = DT_Int,
      m_is_fusion_input = False, m_is_fusion_output = False,
      m_definition = None, m_uses = [], m_isConst = True, m_value = Some x\<rparr>"

definition ex_a :: ValNode where
  "ex_a = (int_literal 7 0 2)\<lparr>m_uses := [2]\<rparr>"

definition ex_b :: ValNode where
  "ex_b = (int_literal 7 1 3)\<lparr>m_uses := [2]\<rparr>"

definition ex_add :: Expr where
  "ex_add = \<lparr>m_name = Some 0, m_fusion = Some 7, m_type = BinaryOp,
             m_inputs = [0, 1], m_outputs = [3]\<rparr>"

definition ex_c :: ValNode where
  "ex_c = \<lparr>m_name = Some 2, m_fusion = Some 7, m_vtype = Scalar, m_dtype = DT_Int,
           m_is_fusion_input = False, m_is_fusion_output = False,
           m_definition = Some 2, m_uses = [], m_isConst = False, m_value = None\<rparr>"

definition ex_heap :: heap where
  "ex_heap = [0 \<mapsto> ValObj ex_a, 1 \<mapsto> ValObj ex_b, 2 \<mapsto> ExprObj ex_add, 3 \<mapsto> ValObj ex_c]"

text \<open>
  The small graph with two more values: at address \<open>10\<close> a value equal to \<open>a\<close> field
  by field, and at address \<open>11\<close> the same owned by fusion \<open>8\<close>.
\<close>

definition ex_heap_copy :: heap where
  "ex_heap_copy = ex_heap(10 \<mapsto> ValObj ex_a, 11 \<mapsto> ValObj (ex_a\<lparr>m_fusion := Some 8\<rparr>))"

text \<open>A named symbolic scalar at address \<open>4\<close>, with every flag set.\<close>

definition ex_ns :: ValNode where
  "ex_ns = \<lparr>m_name = Some 3, m_fusion = Some 7, m_vtype = NamedScalar, m_dtype = DT_Int,
            m_is_fusion_input = True, m_is_fusion_output = True,
            m_definition = None, m_uses = [], m_isConst = True, m_value = Some 5\<rparr>"

definition ex_heap_ns :: heap where
  "ex_heap_ns = ex_heap(4 \<mapsto> ValObj ex_ns)"

text \<open>The literals \<open>0\<close> and \<open>1\<close> at the addresses \<open>5\<close> and \<open>6\<close>.\<close>

definition ex_heap_lits :: heap where
  "ex_heap_lits = ex_heap(5 \<mapsto> ValObj (int_literal 7 4 0), 6 \<mapsto> ValObj (int_literal 7 5 1))"

text \<open>
  A world around the small graph: a tensor at address \<open>8\<close>, owned by fusion \<open>7\<close>, whose
  use information is stale; fusion \<open>7\<close> is the active one. The recomputation used for
  it marks the information valid and rewrites nothing else; the registration used for
  it hands out the name \<open>6\<close>.
\<close>

definition ex_tv :: ValNode where
  "ex_tv = \<lparr>m_name = Some 4, m_fusion = Some 7, m_vtype = TensorView, m_dtype = DT_Double,
            m_is_fusion_input = True, m_is_fusion_output = False,
            m_definition = None, m_uses = [9], m_isConst = False, m_value = None\<rparr>"

definition ex_world :: world where
  "ex_world = \<lparr>stmts = ex_heap(8 \<mapsto> ValObj ex_tv),
               fusions = [7 \<mapsto> \<lparr>isTVUseInfoValid = False, isUpdatingTVUseInfo = False\<rparr>],
               getCurFusion = Some 7\<rparr>"

definition ex_resetTvUses :: "fusion_addr \<Rightarrow> world \<Rightarrow> world" where
  "ex_resetTvUses f w =
     w\<lparr>fusions := (fusions w)(f \<mapsto> \<lparr>isTVUseInfoValid = True, isUpdatingTVUseInfo = False\<rparr>)\<rparr>"

definition ex_registerVal :: "fusion_addr \<Rightarrow> addr \<Rightarrow> world \<Rightarrow> StmtNameType \<times> world" where
  "ex_registerVal f p w = (6, w)"

text \<open>A cloner that copies into fusion \<open>9\<close> and has registered nothing yet.\<close>

definition ex_cloner :: IrCloner where
  "ex_cloner = \<lparr>IrCloner_fusion = Some 9, clones_map = Map.empty\<rparr>"

text \<open>
  A second \<open>add\<close> at address \<open>12\<close> over the same inputs with another output, an
  expression of the same operation kind at address \<open>14\<close> with the single input \<open>a\<close>,
  and, for the structural equality of values, equality of addresses.
\<close>

definition ex_add2 :: Expr where
  "ex_add2 = ex_add\<lparr>m_name := Some 1, m_outputs := [13]\<rparr>"

definition ex_short :: Expr where
  "ex_short = \<lparr>m_name = Some 2, m_fusion = Some 7, m_type = BinaryOp,
             m_inputs = [0], m_outputs = [3]\<rparr>"

definition ex_heap_exprs :: heap where
  "ex_heap_exprs = ex_heap(12 \<mapsto> ExprObj ex_add2, 14 \<mapsto> ExprObj ex_short)"

definition ex_Val_sameAs :: "addr \<Rightarrow> addr \<Rightarrow> error + bool" where
  "ex_Val_sameAs a b = Inr (a = b)"

text \<open>A rank for the small graph: \<open>c\<close> lies above its producer's inputs.\<close>

definition ex_rank :: "addr \<Rightarrow> nat" where
  "ex_rank p = (if p = 3 then 1 else 0)"

section \<open>Facts about the store and the walk\<close>

lemma ex_heap_simps:
  "ex_heap 0 = Some (ValObj ex_a)" "ex_heap 1 = Some (ValObj ex_b)"
  "ex_heap 2 = Some (ExprObj ex_add)" "ex_heap 3 = Some (ValObj ex_c)"
  "ex_heap (Suc 0) = Some (ValObj ex_b)"
  by (simp_all add: ex_heap_def)

lemma derefVal_Inr: "derefVal h p = Inr v \<longleftrightarrow> h p = Some (ValObj v)"
  by (simp add: derefVal_def split: option.splits obj.splits)

lemma derefExpr_Inr: "derefExpr h p = Inr e \<longleftrightarrow> h p = Some (ExprObj e)"
  by (simp add: derefExpr_def split: option.splits obj.splits)

text \<open>
  What \<open>isProducerOf\<close> computes on two live values: it reads the producer of the
  receiver and looks for the argument among that producer's inputs.
\<close>

lemma Val_isProducerOf_code:
  "derefVal h a = Inr va \<Longrightarrow> derefVal h b = Inr vb \<Longrightarrow>
     Val_isProducerOf h a (Some b) =
       (if m_fusion va \<noteq> m_fusion vb
        then Inl (InternalAssert ''fusion() == other->fusion()'')
        else case m_definition va of
               None \<Rightarrow> Inr False
             | Some d \<Rightarrow> (case derefExpr h d of
                            Inl e \<Rightarrow> Inl e
                          | Inr ex \<Rightarrow> Inr (b \<in> set (m_inputs ex))))"
  by (simp add: Val_isProducerOf_def list_ex_iff split: option.splits sum.splits)

text \<open>
  The walk never reads the running result, it only narrows it: started from \<open>False\<close> it
  fails exactly where the walk started from \<open>True\<close> fails, and returns \<open>False\<close> where
  that one returns.
\<close>

lemma ConstCheck_handle_False:
  "\<not> c \<Longrightarrow> ConstCheck_handle_Val n h v c =
     (case ConstCheck_handle_Val n h v True of Some (Inr r) \<Rightarrow> Some (Inr False) | x \<Rightarrow> x)"
  "\<not> c \<Longrightarrow> ConstCheck_handle_Expr n h d c =
     (case ConstCheck_handle_Expr n h d True of Some (Inr r) \<Rightarrow> Some (Inr False) | x \<Rightarrow> x)"
  "\<not> c \<Longrightarrow> ConstCheck_handle_inputs n h ins c =
     (case ConstCheck_handle_inputs n h ins True of Some (Inr r) \<Rightarrow> Some (Inr False) | x \<Rightarrow> x)"
proof (induction n h v c and n h d c and n h ins c
    rule: ConstCheck_handle_Val_ConstCheck_handle_Expr_ConstCheck_handle_inputs.induct)
  case (1 h val is_const)
  then show ?case by simp
next
  case (2 n h val is_const)
  then show ?case
    by (auto simp: OptOutConstDispatch_handle_def ConstCheck_handle_Bool_def
        ConstCheck_handle_Double_def ConstCheck_handle_Int_def ConstCheck_handle_NamedScalar_def
        split: sum.splits option.splits ValType.splits DataType.splits)
next
  case (3 n h expr is_const)
  then show ?case by (auto split: sum.splits option.splits)
next
  case (4 n h is_const)
  then show ?case by simp
next
  case (5 n h inp inps is_const)
  from 5 have c: "is_const = False" by simp
  have first: "ConstCheck_handle_Val n h inp False =
     (case ConstCheck_handle_Val n h inp True of Some (Inr r) \<Rightarrow> Some (Inr False) | x \<Rightarrow> x)"
    using "5.IH"(1) c by simp
  show ?case
  proof (cases "ConstCheck_handle_Val n h inp True")
    case None
    with first c show ?thesis by simp
  next
    case (Some res)
    show ?thesis
    proof (cases res)
      case (Inl e)
      with Some first c show ?thesis by simp
    next
      case (Inr b)
      with Some first have f: "ConstCheck_handle_Val n h inp False = Some (Inr False)"
        by simp
      from "5.IH"(2) [of "Inr False" False] f c
      have rest: "ConstCheck_handle_inputs n h inps False =
        (case ConstCheck_handle_inputs n h inps True of
           Some (Inr r) \<Rightarrow> Some (Inr False) | x \<Rightarrow> x)"
        by simp
      show ?thesis
      proof (cases b)
        case True
        with Some Inr f rest c show ?thesis by simp
      next
        case False
        with Some Inr f rest c show ?thesis
          by (simp split: option.splits sum.splits)
      qed
    qed
  qed
qed


lemma ConstCheck_handle_inputs_conj:
  "ConstCheck_handle_inputs n h ins c =
     (case ConstCheck_handle_inputs n h ins True of Some (Inr r) \<Rightarrow> Some (Inr (c \<and> r)) | x \<Rightarrow> x)"
  using ConstCheck_handle_False(3) [of c n h ins]
  by (cases c) (simp_all split: option.splits sum.splits)


text \<open>On an acyclic store the walk returns, once the depth exceeds the rank.\<close>

lemma ConstCheck_handle_Val_returns:
  "acyclic_by h rank \<Longrightarrow> h p = Some (ValObj v) \<Longrightarrow> rank p < n \<Longrightarrow>
     \<exists>r. ConstCheck_handle_Val n h p c = Some (Inr r)"
proof (induction n arbitrary: p v c)
  case 0
  then show ?case by simp
next
  case (Suc n)
  show ?case
  proof (cases "m_definition v")
    case None
    with Suc.prems show ?thesis by (simp add: derefVal_def)
  next
    case (Some d)
    with Suc.prems obtain e where e: "h d = Some (ExprObj e)"
      and ins: "\<forall>i \<in> set (m_inputs e). (\<exists>w. h i = Some (ValObj w)) \<and> rank i < rank p"
      unfolding acyclic_by_def by blast
    have "\<exists>r. ConstCheck_handle_inputs n h is c' = Some (Inr r)"
      if "set is \<subseteq> set (m_inputs e)" for "is" c'
      using that
    proof (induction "is" arbitrary: c')
      case Nil
      then show ?case by simp
    next
      case (Cons i "is")
      from Cons.prems ins obtain w where "h i = Some (ValObj w)" "rank i < rank p"
        by auto
      with Suc.prems(3) Suc.IH [OF Suc.prems(1), of i w] obtain r
        where "ConstCheck_handle_Val n h i c' = Some (Inr r)"
        by fastforce
      with Cons show ?case by auto
    qed
    then obtain r where "ConstCheck_handle_inputs n h (m_inputs e) c = Some (Inr r)"
      by blast
    with Some e Suc.prems(2) show ?thesis
      by (simp add: derefVal_def derefExpr_def)
  qed
qed

section \<open>Producer and consumer queries: properties\<close>

text \<open>
  Claim C1, as amended. For two live values \<open>a\<close> and \<open>b\<close>: when their fusions differ,
  \<open>a.isProducerOf(b)\<close> fails with the internal assertion. When they are owned by the
  same fusion, \<open>a.isProducerOf(b)\<close> is true iff the producer of the receiver \<open>a\<close> exists
  and lists \<open>b\<close>, as an address, among its inputs; and it returns a truth value
  whenever the producer pointer of \<open>a\<close> is null or leads to a live expression. A value
  equal to an input field by field, at another address, does not count.
\<close>

theorem isProducerOf_reads_receiver_producer:
  "derefVal h a = Inr va \<Longrightarrow> derefVal h b = Inr vb \<Longrightarrow>
     (m_fusion va \<noteq> m_fusion vb \<longrightarrow>
        Val_isProducerOf h a (Some b) = Inl (InternalAssert ''fusion() == other->fusion()'')) \<and>
     (m_fusion va = m_fusion vb \<longrightarrow>
        (Val_isProducerOf h a (Some b) = Inr True \<longleftrightarrow>
           (\<exists>d e. m_definition va = Some d \<and> derefExpr h d = Inr e \<and> b \<in> set (m_inputs e))) \<and>
        ((m_definition va = None \<or> (\<exists>d e. m_definition va = Some d \<and> derefExpr h d = Inr e)) \<longrightarrow>
           (\<exists>r. Val_isProducerOf h a (Some b) = Inr r)))"
  by (auto simp: Val_isProducerOf_code split: option.splits sum.splits)

theorem isProducerOf_reads_receiver_producer_witness:
  "derefVal ex_heap_copy 3 = Inr ex_c \<and> derefVal ex_heap_copy 0 = Inr ex_a \<and>
   m_fusion ex_c = m_fusion ex_a \<and> m_definition ex_c = Some 2 \<and>
   derefExpr ex_heap_copy 2 = Inr ex_add \<and> 0 \<in> set (m_inputs ex_add) \<and>
   Val_isProducerOf ex_heap_copy 3 (Some 0) = Inr True \<and>
   derefVal ex_heap_copy 10 = Inr ex_a \<and> 10 \<notin> set (m_inputs ex_add) \<and>
   Val_isProducerOf ex_heap_copy 3 (Some 10) = Inr False \<and>
   derefVal ex_heap_copy 11 = Inr (ex_a\<lparr>m_fusion := Some 8\<rparr>) \<and>
   m_fusion ex_c \<noteq> m_fusion (ex_a\<lparr>m_fusion := Some 8\<rparr>) \<and>
   Val_isProducerOf ex_heap_copy 3 (Some 11) =
     Inl (InternalAssert ''fusion() == other->fusion()'')"
proof -
  have p: "derefVal ex_heap_copy 3 = Inr ex_c" "derefVal ex_heap_copy 0 = Inr ex_a"
    "derefVal ex_heap_copy 10 = Inr ex_a"
    "derefVal ex_heap_copy 11 = Inr (ex_a\<lparr>m_fusion := Some 8\<rparr>)"
    "derefExpr ex_heap_copy 2 = Inr ex_add"
    by (simp_all add: derefVal_def derefExpr_def ex_heap_copy_def ex_heap_simps)
  have k: "m_fusion ex_c = m_fusion ex_a" "m_definition ex_c = Some 2"
    "0 \<in> set (m_inputs ex_add)" "10 \<notin> set (m_inputs ex_add)"
    "m_fusion ex_c \<noteq> m_fusion (ex_a\<lparr>m_fusion := Some 8\<rparr>)"
    by (simp_all add: ex_c_def ex_a_def ex_add_def int_literal_def)
  from isProducerOf_reads_receiver_producer [OF p(1) p(2)] k(1-3) p(5)
  have t: "Val_isProducerOf ex_heap_copy 3 (Some 0) = Inr True"
    by blast
  from isProducerOf_reads_receiver_producer [OF p(1) p(3)] k(1,2) p(5)
  obtain r where r: "Val_isProducerOf ex_heap_copy 3 (Some 10) = Inr r"
    by blast
  have f: "Val_isProducerOf ex_heap_copy 3 (Some 10) = Inr False"
  proof (cases r)
    case True
    with r isProducerOf_reads_receiver_producer [OF p(1) p(3)] k(1,2,4) p(5)
    show ?thesis by auto
  next
    case False
    with r show ?thesis by simp
  qed
  from isProducerOf_reads_receiver_producer [OF p(1) p(4)] k(5)
  have e: "Val_isProducerOf ex_heap_copy 3 (Some 11) =
     Inl (InternalAssert ''fusion() == other->fusion()'')"
    by blast
  from p k t f e show ?thesis by simp
qed

text \<open>
  The claim as stated reads the producer of the argument. In the small graph the
  producer of \<open>c\<close> (address \<open>3\<close>) is \<open>add\<close>, which lists \<open>a\<close> (address \<open>0\<close>) among
  its inputs, and both are owned by one fusion: \<open>a.isProducerOf(c)\<close> is false, and
  \<open>c.isProducerOf(a)\<close> is true although \<open>a\<close> has no producer.
\<close>

theorem isProducerOf_other_producer_counterexample:
  "m_definition ex_c = Some 2 \<and> derefExpr ex_heap 2 = Inr ex_add \<and> 0 \<in> set (m_inputs ex_add) \<and>
   m_fusion ex_a = m_fusion ex_c \<and> m_definition ex_a = None \<and>
   Val_isProducerOf ex_heap 0 (Some 3) = Inr False \<and>
   Val_isProducerOf ex_heap 3 (Some 0) = Inr True"
  by (simp add: Val_isProducerOf_def derefVal_def derefExpr_def ex_heap_simps
      ex_a_def ex_c_def ex_add_def int_literal_def)

text \<open>
  Claim C10. For two live values \<open>a\<close> and \<open>b\<close> of the same fusion, \<open>a.isConsumerOf(b)\<close>
  is \<open>b.isProducerOf(a)\<close>; it is true iff \<open>b\<close> has a producer and \<open>a\<close> is, as an
  address, among the inputs of that producer; and it returns a truth value whenever the
  producer pointer of \<open>b\<close> is null or leads to a live expression.
\<close>

theorem isConsumerOf_is_flipped_isProducerOf:
  "derefVal h a = Inr va \<Longrightarrow> derefVal h b = Inr vb \<Longrightarrow> m_fusion va = m_fusion vb \<Longrightarrow>
     Val_isConsumerOf h a (Some b) = Val_isProducerOf h b (Some a) \<and>
     (Val_isConsumerOf h a (Some b) = Inr True \<longleftrightarrow>
        (\<exists>d e. m_definition vb = Some d \<and> derefExpr h d = Inr e \<and> a \<in> set (m_inputs e))) \<and>
     ((m_definition vb = None \<or> (\<exists>d e. m_definition vb = Some d \<and> derefExpr h d = Inr e)) \<longrightarrow>
        (\<exists>r. Val_isConsumerOf h a (Some b) = Inr r))"
  by (auto simp: Val_isConsumerOf_def Val_isProducerOf_def list_ex_iff
      split: option.splits sum.splits)

theorem isConsumerOf_is_flipped_isProducerOf_witness:
  "derefVal ex_heap 0 = Inr ex_a \<and> derefVal ex_heap 3 = Inr ex_c \<and> m_fusion ex_a = m_fusion ex_c \<and>
   Val_isConsumerOf ex_heap 0 (Some 3) = Inr True \<and>
   m_definition ex_c = Some 2 \<and> derefExpr ex_heap 2 = Inr ex_add \<and> 0 \<in> set (m_inputs ex_add)"
proof -
  have a: "derefVal ex_heap 0 = Inr ex_a" and c: "derefVal ex_heap 3 = Inr ex_c"
    by (simp_all add: derefVal_def ex_heap_simps)
  have f: "m_fusion ex_a = m_fusion ex_c"
    by (simp add: ex_a_def ex_c_def int_literal_def)
  have d: "m_definition ex_c = Some 2" "derefExpr ex_heap 2 = Inr ex_add"
    "0 \<in> set (m_inputs ex_add)"
    by (simp_all add: ex_c_def derefExpr_def ex_heap_simps ex_add_def)
  from isConsumerOf_is_flipped_isProducerOf [OF a c f] d a c f show ?thesis
    by blast
qed

section \<open>Constant analysis: properties\<close>

lemma ex_vals:
  "m_definition ex_a = None" "m_vtype ex_a = Scalar" "m_dtype ex_a = DT_Int" "m_isConst ex_a"
  "m_definition ex_b = None" "m_vtype ex_b = Scalar" "m_dtype ex_b = DT_Int" "m_isConst ex_b"
  "m_inputs ex_add = [0, 1]" "m_definition ex_c = Some 2" "Val_isScalar ex_c"
  by (simp_all add: ex_a_def ex_b_def ex_add_def ex_c_def int_literal_def Val_isScalar_def)

text \<open>
  Claim C7. A value with no producer whose kind is the named symbolic scalar is never a
  constant scalar, whatever its flags: with any depth that allows the first call,
  \<open>isConstScalar\<close> returns false.
\<close>

theorem named_scalar_never_const:
  "derefVal h p = Inr v \<Longrightarrow> m_definition v = None \<Longrightarrow> m_vtype v = NamedScalar \<Longrightarrow>
     Val_isConstScalar (Suc n) h p = Some (Inr False)"
  by (simp add: Val_isConstScalar_def Val_isScalar_def ConstCheck_isConst_def
      OptOutConstDispatch_handle_def ConstCheck_handle_NamedScalar_def)

theorem named_scalar_never_const_witness:
  "derefVal ex_heap_ns 4 = Inr ex_ns \<and> m_definition ex_ns = None \<and> m_vtype ex_ns = NamedScalar \<and>
   m_isConst ex_ns \<and> m_is_fusion_input ex_ns \<and> m_is_fusion_output ex_ns \<and>
   Val_isConstScalar (Suc 0) ex_heap_ns 4 = Some (Inr False)"
proof -
  have p: "derefVal ex_heap_ns 4 = Inr ex_ns"
    by (simp add: derefVal_def ex_heap_ns_def)
  have d: "m_definition ex_ns = None" and k: "m_vtype ex_ns = NamedScalar"
    by (simp_all add: ex_ns_def)
  from named_scalar_never_const [OF p d k, of 0] p d k show ?thesis
    by (simp add: ex_ns_def)
qed



lemma getInt_present:
  "derefVal h this = Inr self \<Longrightarrow>
     (Val_getInt n h this = Some (Inr (Some x)) \<longleftrightarrow>
        Val_isConstScalar n h this = Some (Inr True) \<and> Val_isAnInt self \<and>
        m_vtype self = Scalar \<and> m_value self = Some x)"
  by (auto simp: Val_getInt_def split: option.splits sum.splits if_splits)

lemma getInt_absent:
  "derefVal h this = Inr self \<Longrightarrow> Val_isConstScalar n h this = Some (Inr cs) \<Longrightarrow>
     \<not> (cs \<and> Val_isAnInt self \<and> m_vtype self = Scalar) \<Longrightarrow>
     Val_getInt n h this = Some (Inr None)"
  by (auto simp: Val_getInt_def split: option.splits sum.splits if_splits)

lemma isConstScalar_returns:
  assumes s: "derefVal h this = Inr self" and a: "acyclic_by h rank" and n: "rank this < n"
  shows "\<exists>cs. Val_isConstScalar n h this = Some (Inr cs)"
proof -
  from s have "h this = Some (ValObj self)"
    by (simp add: derefVal_Inr)
  from ConstCheck_handle_Val_returns [OF a this n, of True]
  obtain r where "ConstCheck_handle_Val n h this True = Some (Inr r)" ..
  with s show ?thesis
    by (auto simp: Val_isConstScalar_def ConstCheck_isConst_def)
qed

lemma getInt_returns:
  "derefVal h this = Inr self \<Longrightarrow> Val_isConstScalar n h this = Some (Inr cs) \<Longrightarrow>
     \<exists>g. Val_getInt n h this = Some (Inr g)"
  by (auto simp: Val_getInt_def split: option.splits sum.splits if_splits)

lemma isZeroInt_iff:
  "Val_isZeroInt n h this = Some (Inr z) \<longleftrightarrow>
     (\<exists>g. Val_getInt n h this = Some (Inr g) \<and> z = (g = Some 0))"
  by (auto simp: Val_isZeroInt_def split: option.splits sum.splits)

lemma isOneInt_iff:
  "Val_isOneInt n h this = Some (Inr z) \<longleftrightarrow>
     (\<exists>g. Val_getInt n h this = Some (Inr g) \<and> z = (g = Some 1))"
  by (auto simp: Val_isOneInt_def split: option.splits sum.splits)

text \<open>
  Claim C9. For a live value: \<open>getInt\<close> returns an integer exactly when \<open>isConstScalar\<close>
  returns true, the value is an integer-typed scalar of kind \<open>Scalar\<close>, and its literal
  holds that integer; when \<open>isConstScalar\<close> returns and one of the conditions fails, it
  returns the absent value. It raises no error of its own: on an acyclic store, at a
  depth beyond the rank of the value, it returns. \<open>isZeroInt\<close> is true iff \<open>getInt\<close>
  returns \<open>0\<close>, \<open>isOneInt\<close> is true iff it returns \<open>1\<close>, and both return whenever
  \<open>getInt\<close> does.
\<close>

theorem getInt_only_const_int_literal:
  "derefVal h this = Inr self \<Longrightarrow>
     (Val_getInt n h this = Some (Inr (Some x)) \<longleftrightarrow>
        Val_isConstScalar n h this = Some (Inr True) \<and> Val_isAnInt self \<and>
        m_vtype self = Scalar \<and> m_value self = Some x) \<and>
     (\<forall>cs. Val_isConstScalar n h this = Some (Inr cs) \<and>
           \<not> (cs \<and> Val_isAnInt self \<and> m_vtype self = Scalar) \<longrightarrow>
           Val_getInt n h this = Some (Inr None)) \<and>
     (acyclic_by h rank \<and> rank this < n \<longrightarrow> (\<exists>g. Val_getInt n h this = Some (Inr g))) \<and>
     (Val_isZeroInt n h this = Some (Inr True) \<longleftrightarrow> Val_getInt n h this = Some (Inr (Some 0))) \<and>
     (Val_isOneInt n h this = Some (Inr True) \<longleftrightarrow> Val_getInt n h this = Some (Inr (Some 1))) \<and>
     (\<forall>g. Val_getInt n h this = Some (Inr g) \<longrightarrow>
          (\<exists>z0 z1. Val_isZeroInt n h this = Some (Inr z0) \<and> Val_isOneInt n h this = Some (Inr z1)))"
proof (intro conjI allI impI)
  assume s: "derefVal h this = Inr self"
  show "Val_getInt n h this = Some (Inr (Some x)) \<longleftrightarrow>
        Val_isConstScalar n h this = Some (Inr True) \<and> Val_isAnInt self \<and>
        m_vtype self = Scalar \<and> m_value self = Some x"
    by (rule getInt_present [OF s])
  show "Val_getInt n h this = Some (Inr None)"
    if "Val_isConstScalar n h this = Some (Inr cs) \<and>
        \<not> (cs \<and> Val_isAnInt self \<and> m_vtype self = Scalar)" for cs
    using that getInt_absent [OF s] by blast
  show "\<exists>g. Val_getInt n h this = Some (Inr g)" if "acyclic_by h rank \<and> rank this < n"
    using that isConstScalar_returns [OF s] getInt_returns [OF s] by blast
  show "Val_isZeroInt n h this = Some (Inr True) \<longleftrightarrow> Val_getInt n h this = Some (Inr (Some 0))"
    by (simp add: isZeroInt_iff)
  show "Val_isOneInt n h this = Some (Inr True) \<longleftrightarrow> Val_getInt n h this = Some (Inr (Some 1))"
    by (simp add: isOneInt_iff)
  show "\<exists>z0 z1. Val_isZeroInt n h this = Some (Inr z0) \<and> Val_isOneInt n h this = Some (Inr z1)"
    if "Val_getInt n h this = Some (Inr g)" for g
    using that by (simp add: isZeroInt_iff isOneInt_iff)
qed

lemma acyclic_ex_heap_lits: "acyclic_by ex_heap_lits ex_rank"
  by (auto simp: acyclic_by_def ex_heap_lits_def ex_heap_def ex_vals int_literal_def ex_rank_def
      split: if_splits)

theorem getInt_only_const_int_literal_witness:
  "derefVal ex_heap_lits 5 = Inr (int_literal 7 4 0) \<and>
   derefVal ex_heap_lits 6 = Inr (int_literal 7 5 1) \<and>
   derefVal ex_heap_lits 3 = Inr ex_c \<and>
   acyclic_by ex_heap_lits ex_rank \<and> ex_rank 5 < Suc 0 \<and>
   Val_isConstScalar (Suc 0) ex_heap_lits 5 = Some (Inr True) \<and>
   Val_getInt (Suc 0) ex_heap_lits 5 = Some (Inr (Some 0)) \<and>
   Val_isZeroInt (Suc 0) ex_heap_lits 5 = Some (Inr True) \<and>
   Val_isOneInt (Suc 0) ex_heap_lits 5 = Some (Inr False) \<and>
   Val_getInt (Suc 0) ex_heap_lits 6 = Some (Inr (Some 1)) \<and>
   Val_isZeroInt (Suc 0) ex_heap_lits 6 = Some (Inr False) \<and>
   Val_isOneInt (Suc 0) ex_heap_lits 6 = Some (Inr True) \<and>
   Val_isConstScalar (Suc (Suc 0)) ex_heap_lits 3 = Some (Inr True) \<and>
   Val_getInt (Suc (Suc 0)) ex_heap_lits 3 = Some (Inr None)"
proof -
  have p: "derefVal ex_heap_lits 5 = Inr (int_literal 7 4 0)"
    "derefVal ex_heap_lits 6 = Inr (int_literal 7 5 1)"
    "derefVal ex_heap_lits 3 = Inr ex_c"
    "derefVal ex_heap_lits 0 = Inr ex_a"
    "derefVal ex_heap_lits (Suc 0) = Inr ex_b"
    "derefExpr ex_heap_lits 2 = Inr ex_add"
    by (simp_all add: derefVal_def derefExpr_def ex_heap_lits_def ex_heap_simps)
  have k: "Val_isScalar (int_literal 7 n x)" "Val_isAnInt (int_literal 7 n x)"
    "m_vtype (int_literal 7 n x) = Scalar" "m_value (int_literal 7 n x) = Some x"
    "m_definition (int_literal 7 n x) = None" "m_dtype (int_literal 7 n x) = DT_Int"
    "m_isConst (int_literal 7 n x)" for n x
    by (simp_all add: int_literal_def Val_isScalar_def Val_isAnInt_def)
  have kc: "Val_isAnInt ex_c" "m_vtype ex_c = Scalar" "m_value ex_c = None"
    by (simp_all add: ex_c_def Val_isAnInt_def Val_isScalar_def)
  have c5: "Val_isConstScalar (Suc 0) ex_heap_lits 5 = Some (Inr True)"
    and c6: "Val_isConstScalar (Suc 0) ex_heap_lits 6 = Some (Inr True)"
    and c3: "Val_isConstScalar (Suc (Suc 0)) ex_heap_lits 3 = Some (Inr True)"
    by (simp_all add: Val_isConstScalar_def ConstCheck_isConst_def p k ex_vals
        OptOutConstDispatch_handle_def ConstCheck_handle_Int_def)
  note t5 = getInt_only_const_int_literal [OF p(1), of "Suc 0" 0 ex_rank]
  note t6 = getInt_only_const_int_literal [OF p(2), of "Suc 0" 1 ex_rank]
  note t3 = getInt_only_const_int_literal [OF p(3), of "Suc (Suc 0)" 0 ex_rank]
  have g5: "Val_getInt (Suc 0) ex_heap_lits 5 = Some (Inr (Some 0))"
    using t5 c5 k by blast
  have g6: "Val_getInt (Suc 0) ex_heap_lits 6 = Some (Inr (Some 1))"
    using t6 c6 k by blast
  have r: "ex_rank 5 < Suc 0" "ex_rank 6 < Suc 0" "ex_rank 3 < Suc (Suc 0)"
    by (simp_all add: ex_rank_def)
  from t3 acyclic_ex_heap_lits r(3) obtain g
    where g: "Val_getInt (Suc (Suc 0)) ex_heap_lits 3 = Some (Inr g)"
    by blast
  have g3: "Val_getInt (Suc (Suc 0)) ex_heap_lits 3 = Some (Inr None)"
  proof (cases g)
    case None
    with g show ?thesis by simp
  next
    case (Some y)
    with g getInt_only_const_int_literal [OF p(3), of "Suc (Suc 0)" y ex_rank] kc
    show ?thesis by simp
  qed
  have z5: "Val_isZeroInt (Suc 0) ex_heap_lits 5 = Some (Inr True)"
    using t5 g5 by blast
  have o6: "Val_isOneInt (Suc 0) ex_heap_lits 6 = Some (Inr True)"
    using t6 g6 by blast
  from t5 g5 obtain z where "Val_isOneInt (Suc 0) ex_heap_lits 5 = Some (Inr z)"
    by blast
  with t5 g5 have o5: "Val_isOneInt (Suc 0) ex_heap_lits 5 = Some (Inr False)"
    by (cases z) simp_all
  from t6 g6 obtain z where "Val_isZeroInt (Suc 0) ex_heap_lits 6 = Some (Inr z)"
    by blast
  with t6 g6 have z6: "Val_isZeroInt (Suc 0) ex_heap_lits 6 = Some (Inr False)"
    by (cases z) simp_all
  from p(1-3) acyclic_ex_heap_lits r(1) c5 g5 z5 o5 g6 z6 o6 c3 g3 show ?thesis
    by simp
qed

section \<open>Use lists and construction: properties\<close>

text \<open>
  Claim C4. For a live value, \<open>uses()\<close> calls the recomputation of the fusion iff the
  kind of the value is \<open>TensorView\<close> and its fusion, a live one, has the validity flag
  false and is not updating; it then calls it exactly once, on that fusion. For a
  \<open>TensorView\<close> whose fusion is valid or updating, and for every other kind, it returns
  the stored list and leaves the world as it is, with no call.
\<close>

theorem uses_recomputes_iff:
  "derefVal (stmts w) this = Inr self \<Longrightarrow>
     (snd (snd (Val_uses resetTvUses w this)) \<noteq> [] \<longleftrightarrow>
        m_vtype self = TensorView \<and>
        (\<exists>f fu. derefFusion w (m_fusion self) = Inr (f, fu) \<and>
                \<not> isTVUseInfoValid fu \<and> \<not> isUpdatingTVUseInfo fu)) \<and>
     (\<forall>f fu. derefFusion w (m_fusion self) = Inr (f, fu) \<and> m_vtype self = TensorView \<and>
             \<not> isTVUseInfoValid fu \<and> \<not> isUpdatingTVUseInfo fu \<longrightarrow>
             snd (Val_uses resetTvUses w this) = (resetTvUses f w, [ResetTvUses f])) \<and>
     (\<forall>f fu. derefFusion w (m_fusion self) = Inr (f, fu) \<and> m_vtype self = TensorView \<and>
             (isTVUseInfoValid fu \<or> isUpdatingTVUseInfo fu) \<longrightarrow>
             Val_uses resetTvUses w this = (Inr (m_uses self), w, [])) \<and>
     (m_vtype self \<noteq> TensorView \<longrightarrow> Val_uses resetTvUses w this = (Inr (m_uses self), w, []))"
  by (auto simp: Val_uses_def Let_def split: sum.splits prod.splits)

theorem uses_recomputes_iff_witness:
  "derefVal (stmts ex_world) 8 = Inr ex_tv \<and> m_vtype ex_tv = TensorView \<and>
   derefFusion ex_world (m_fusion ex_tv) =
     Inr (7, \<lparr>isTVUseInfoValid = False, isUpdatingTVUseInfo = False\<rparr>) \<and>
   Val_uses ex_resetTvUses ex_world 8 = (Inr [9], ex_resetTvUses 7 ex_world, [ResetTvUses 7]) \<and>
   Val_uses ex_resetTvUses (ex_resetTvUses 7 ex_world) 8 =
     (Inr [9], ex_resetTvUses 7 ex_world, []) \<and>
   derefVal (stmts ex_world) 0 = Inr ex_a \<and> m_vtype ex_a \<noteq> TensorView \<and>
   Val_uses ex_resetTvUses ex_world 0 = (Inr [2], ex_world, [])"
proof -
  let ?fu = "\<lparr>isTVUseInfoValid = False, isUpdatingTVUseInfo = False\<rparr>"
  let ?fu' = "\<lparr>isTVUseInfoValid = True, isUpdatingTVUseInfo = False\<rparr>"
  let ?w' = "ex_resetTvUses 7 ex_world"
  have p: "derefVal (stmts ex_world) 8 = Inr ex_tv" "derefVal (stmts ?w') 8 = Inr ex_tv"
    "derefVal (stmts ex_world) 0 = Inr ex_a"
    by (simp_all add: ex_world_def ex_resetTvUses_def derefVal_def ex_heap_simps)
  have k: "m_vtype ex_tv = TensorView" "m_uses ex_tv = [9]" "m_vtype ex_a \<noteq> TensorView"
    "m_uses ex_a = [2]"
    by (simp_all add: ex_tv_def ex_a_def int_literal_def)
  have f: "derefFusion ex_world (m_fusion ex_tv) = Inr (7, ?fu)"
    "derefFusion ?w' (m_fusion ex_tv) = Inr (7, ?fu')"
    by (simp_all add: derefFusion_def ex_world_def ex_tv_def ex_resetTvUses_def)
  note t1 = uses_recomputes_iff [OF p(1), of ex_resetTvUses]
  note t2 = uses_recomputes_iff [OF p(2), of ex_resetTvUses]
  note t3 = uses_recomputes_iff [OF p(3), of ex_resetTvUses]
  from t1 f(1) k(1) have s1: "snd (Val_uses ex_resetTvUses ex_world 8) = (?w', [ResetTvUses 7])"
    by simp
  have v1: "fst (Val_uses ex_resetTvUses ex_world 8) = Inr [9]"
    by (simp add: Val_uses_def p k f Let_def)
  from t2 f(2) k(1,2) have u2: "Val_uses ex_resetTvUses ?w' 8 = (Inr [9], ?w', [])"
    by simp
  from t3 k(3,4) have u3: "Val_uses ex_resetTvUses ex_world 0 = (Inr [2], ex_world, [])"
    by simp
  from s1 v1 have u1: "Val_uses ex_resetTvUses ex_world 8 = (Inr [9], ?w', [ResetTvUses 7])"
    by (cases "Val_uses ex_resetTvUses ex_world 8") simp
  from p(1,3) k(1,3) f(1) u1 u2 u3 show ?thesis by simp
qed

text \<open>
  Claim C5. With no active fusion, constructing a \<open>Val\<close> (registered or not) and
  constructing an \<open>Expr\<close> both fail with the error of \<open>TORCH_CHECK\<close>; and whenever a
  constructor returns a node, its owner is the active fusion, which is not null.
\<close>

theorem ctor_needs_active_fusion:
  "(getCurFusion w = None \<longrightarrow>
      Val_ctor registerVal w this vtype dtype register_val =
        Inl (CheckFailed ''No active fusion group found when creating a Val.'') \<and>
      Expr_ctor w type = Inl (CheckFailed ''No active fusion group found when creating an Expr.'')) \<and>
   (\<forall>v w'. Val_ctor registerVal w this vtype dtype register_val = Inr (v, w') \<longrightarrow>
      m_fusion v = getCurFusion w \<and> m_fusion v \<noteq> None) \<and>
   (\<forall>e. Expr_ctor w type = Inr e \<longrightarrow> m_fusion e = getCurFusion w \<and> m_fusion e \<noteq> None)"
  by (auto simp: Val_ctor_def Expr_ctor_def Let_def split: option.splits prod.splits if_splits)

theorem ctor_needs_active_fusion_witness:
  "getCurFusion (ex_world\<lparr>getCurFusion := None\<rparr>) = None \<and>
   Val_ctor ex_registerVal (ex_world\<lparr>getCurFusion := None\<rparr>) 20 Scalar DT_Int True =
     Inl (CheckFailed ''No active fusion group found when creating a Val.'') \<and>
   Val_ctor ex_registerVal (ex_world\<lparr>getCurFusion := None\<rparr>) 20 Scalar DT_Int False =
     Inl (CheckFailed ''No active fusion group found when creating a Val.'') \<and>
   Expr_ctor (ex_world\<lparr>getCurFusion := None\<rparr>) BinaryOp =
     Inl (CheckFailed ''No active fusion group found when creating an Expr.'') \<and>
   getCurFusion ex_world = Some 7 \<and>
   Val_ctor ex_registerVal ex_world 20 Scalar DT_Int True =
     Inr (\<lparr>m_name = Some 6, m_fusion = Some 7, m_vtype = Scalar, m_dtype = DT_Int,
           m_is_fusion_input = False, m_is_fusion_output = False,
           m_definition = None, m_uses = []\<rparr>, ex_world) \<and>
   Expr_ctor ex_world BinaryOp =
     Inr \<lparr>m_name = None, m_fusion = Some 7, m_type = BinaryOp, m_inputs = [], m_outputs = []\<rparr>"
proof -
  let ?w = "ex_world\<lparr>getCurFusion := None\<rparr>"
  have n: "getCurFusion ?w = None" by simp
  have a: "getCurFusion ex_world = Some 7" by (simp add: ex_world_def)
  from ctor_needs_active_fusion [of ?w ex_registerVal 20 Scalar DT_Int True BinaryOp]
    ctor_needs_active_fusion [of ?w ex_registerVal 20 Scalar DT_Int False BinaryOp] n
  have e: "Val_ctor ex_registerVal ?w 20 Scalar DT_Int True =
      Inl (CheckFailed ''No active fusion group found when creating a Val.'')"
    "Val_ctor ex_registerVal ?w 20 Scalar DT_Int False =
      Inl (CheckFailed ''No active fusion group found when creating a Val.'')"
    "Expr_ctor ?w BinaryOp = Inl (CheckFailed ''No active fusion group found when creating an Expr.'')"
    by blast+
  have v: "Val_ctor ex_registerVal ex_world 20 Scalar DT_Int True =
     Inr (\<lparr>m_name = Some 6, m_fusion = Some 7, m_vtype = Scalar, m_dtype = DT_Int,
           m_is_fusion_input = False, m_is_fusion_output = False,
           m_definition = None, m_uses = []\<rparr>, ex_world)"
    by (simp add: Val_ctor_def a ex_registerVal_def)
  have x: "Expr_ctor ex_world BinaryOp =
     Inr \<lparr>m_name = None, m_fusion = Some 7, m_type = BinaryOp, m_inputs = [], m_outputs = []\<rparr>"
    by (simp add: Expr_ctor_def a)
  from n a e v x show ?thesis by blast
qed

section \<open>Cloning: properties\<close>

text \<open>
  Claim C2, as amended. The clone constructor of \<open>Statement\<close> copies the name of the
  source, takes the owner from the cloner (\<open>ir_cloner->fusion()\<close>), and registers the
  pair of the source and the new statement in the identity map of the cloner, which
  keeps its other entries. Of the source it reads the name and nothing else.
\<close>

theorem Statement_clone_name_and_registration:
  "m_name (fst (Statement_clone src src_p this ir_cloner)) = m_name src \<and>
   m_fusion (fst (Statement_clone src src_p this ir_cloner)) = IrCloner_fusion ir_cloner \<and>
   snd (Statement_clone src src_p this ir_cloner) = registerClone ir_cloner src_p this \<and>
   clones_map (snd (Statement_clone src src_p this ir_cloner)) src_p = Some this \<and>
   (\<forall>q. q \<noteq> src_p \<longrightarrow>
      clones_map (snd (Statement_clone src src_p this ir_cloner)) q = clones_map ir_cloner q) \<and>
   (\<forall>src'. m_name src' = m_name src \<longrightarrow>
      Statement_clone src' src_p this ir_cloner = Statement_clone src src_p this ir_cloner)"
  by (simp add: Statement_clone_def registerClone_def)

theorem Statement_clone_name_and_registration_witness:
  "m_name (fst (Statement_clone ex_c 3 23 ex_cloner)) = Some 2 \<and>
   m_fusion (fst (Statement_clone ex_c 3 23 ex_cloner)) = Some 9 \<and>
   clones_map (snd (Statement_clone ex_c 3 23 ex_cloner)) 3 = Some 23 \<and>
   clones_map (snd (Statement_clone ex_c 3 23 ex_cloner)) 0 = None \<and>
   m_name (ex_c\<lparr>m_fusion := Some 1\<rparr>) = m_name ex_c \<and>
   Statement_clone (ex_c\<lparr>m_fusion := Some 1\<rparr>) 3 23 ex_cloner = Statement_clone ex_c 3 23 ex_cloner"
proof -
  have n: "m_name ex_c = Some 2" "IrCloner_fusion ex_cloner = Some 9"
    "clones_map ex_cloner 0 = None" "(0::nat) \<noteq> 3"
    "m_name (ex_c\<lparr>m_fusion := Some 1\<rparr>) = m_name ex_c"
    by (simp_all add: ex_c_def ex_cloner_def)
  from Statement_clone_name_and_registration [of ex_c 3 23 ex_cloner] n show ?thesis
    by metis
qed

text \<open>
  The claim as stated has the owner copied from the source. Cloning \<open>c\<close>, owned by
  fusion \<open>7\<close>, with a cloner for fusion \<open>9\<close> gives a statement owned by fusion \<open>9\<close>.
\<close>

theorem Statement_clone_owner_counterexample:
  "m_fusion ex_c = Some 7 \<and> m_fusion (fst (Statement_clone ex_c 3 23 ex_cloner)) = Some 9 \<and>
   m_fusion (fst (Statement_clone ex_c 3 23 ex_cloner)) \<noteq> m_fusion ex_c"
  by (simp add: Statement_clone_def ex_c_def ex_cloner_def)

text \<open>
  Claim C8. The clone constructor of \<open>Val\<close> copies the kind, the data type and the two
  graph flags of the source; the producer and the consumers of the clone are null and
  empty; and the clone depends on the source through its name, kind, data type and
  flags only, so whatever the producer and the consumers of the source are, the clone is
  the same.
\<close>

theorem Val_clone_copies_tags_only:
  "Val_clone src src_p this ir_cloner = (v, ir_cloner') \<Longrightarrow>
     m_vtype v = m_vtype src \<and> m_dtype v = m_dtype src \<and>
     m_is_fusion_input v = m_is_fusion_input src \<and>
     m_is_fusion_output v = m_is_fusion_output src \<and>
     m_definition v = None \<and> m_uses v = [] \<and>
     (\<forall>src'. m_name src' = m_name src \<and> m_vtype src' = m_vtype src \<and>
             m_dtype src' = m_dtype src \<and> m_is_fusion_input src' = m_is_fusion_input src \<and>
             m_is_fusion_output src' = m_is_fusion_output src \<longrightarrow>
             Val_clone src' src_p this ir_cloner = (v, ir_cloner'))"
  by (auto simp: Val_clone_def Statement_clone_def)

theorem Val_clone_copies_tags_only_witness:
  "Val_clone ex_c 3 23 ex_cloner =
     (\<lparr>m_name = Some 2, m_fusion = Some 9, m_vtype = Scalar, m_dtype = DT_Int,
       m_is_fusion_input = False, m_is_fusion_output = False,
       m_definition = None, m_uses = []\<rparr>, registerClone ex_cloner 3 23) \<and>
   m_definition ex_c = Some 2 \<and>
   Val_clone (ex_c\<lparr>m_definition := None, m_uses := [12]\<rparr>) 3 23 ex_cloner =
     Val_clone ex_c 3 23 ex_cloner"
proof -
  let ?v = "\<lparr>m_name = Some 2, m_fusion = Some 9, m_vtype = Scalar, m_dtype = DT_Int,
       m_is_fusion_input = False, m_is_fusion_output = False,
       m_definition = None, m_uses = []\<rparr>"
  have c: "Val_clone ex_c 3 23 ex_cloner = (?v, registerClone ex_cloner 3 23)"
    by (simp add: Val_clone_def Statement_clone_def ex_c_def ex_cloner_def)
  have d: "m_definition ex_c = Some 2" by (simp add: ex_c_def)
  let ?src' = "ex_c\<lparr>m_definition := None, m_uses := [12]\<rparr>"
  have same: "m_name ?src' = m_name ex_c \<and> m_vtype ?src' = m_vtype ex_c \<and>
     m_dtype ?src' = m_dtype ex_c \<and> m_is_fusion_input ?src' = m_is_fusion_input ex_c \<and>
     m_is_fusion_output ?src' = m_is_fusion_output ex_c"
    by simp
  from Val_clone_copies_tags_only [OF c] same
  have "Val_clone ?src' 3 23 ex_cloner = (?v, registerClone ex_cloner 3 23)"
    by blast
  with c d show ?thesis by simp
qed

section \<open>Structural equality of expressions: properties\<close>

text \<open>
  The loop over the inputs, started at index \<open>i\<close> on two expressions with as many
  inputs, answers true iff every pair of inputs from \<open>i\<close> on is the same; and it never
  looks at the outputs.
\<close>

lemma Expr_sameAs_loop_True_iff:
  "length (m_inputs self) = length (m_inputs other_expr) \<Longrightarrow>
     Expr_sameAs_loop Val_sameAs self other_expr i = Inr True \<longleftrightarrow>
       (\<forall>j. i \<le> j \<and> j < length (m_inputs self) \<longrightarrow>
            Val_sameAs (m_inputs self ! j) (m_inputs other_expr ! j) = Inr True)"
proof (induction Val_sameAs self other_expr i rule: Expr_sameAs_loop.induct)
  case (1 Val_sameAs self other_expr i)
  show ?case
  proof (cases "i < length (m_inputs self)")
    case False
    then show ?thesis
      by (subst Expr_sameAs_loop.simps) auto
  next
    case True
    let ?a = "m_inputs self ! i" and ?b = "m_inputs other_expr ! i"
    from True "1.prems" have inp: "Expr_input self i = Inr ?a" "Expr_input other_expr i = Inr ?b"
      by (simp_all add: Expr_input_def)
    have split: "(\<forall>j. i \<le> j \<and> j < length (m_inputs self) \<longrightarrow>
            Val_sameAs (m_inputs self ! j) (m_inputs other_expr ! j) = Inr True) \<longleftrightarrow>
          Val_sameAs ?a ?b = Inr True \<and>
          (\<forall>j. Suc i \<le> j \<and> j < length (m_inputs self) \<longrightarrow>
            Val_sameAs (m_inputs self ! j) (m_inputs other_expr ! j) = Inr True)"
      using True by (metis Suc_leI le_eq_less_or_eq Suc_leD order_refl)
    show ?thesis
    proof (cases "Val_sameAs ?a ?b")
      case (Inl e)
      with True inp split show ?thesis
        by (subst Expr_sameAs_loop.simps) simp
    next
      case (Inr same)
      show ?thesis
      proof (cases same)
        case False
        with Inr True inp split show ?thesis
          by (subst Expr_sameAs_loop.simps) simp
      next
        case same: True
        with "1.IH" [OF True inp(1) inp(2) Inr] "1.prems"
        have "Expr_sameAs_loop Val_sameAs self other_expr (Suc i) = Inr True \<longleftrightarrow>
          (\<forall>j. Suc i \<le> j \<and> j < length (m_inputs self) \<longrightarrow>
            Val_sameAs (m_inputs self ! j) (m_inputs other_expr ! j) = Inr True)"
          by simp
        with Inr same True inp split show ?thesis
          by (subst Expr_sameAs_loop.simps) simp
      qed
    qed
  qed
qed

lemma Expr_sameAs_loop_outputs:
  "Expr_sameAs_loop Val_sameAs (self\<lparr>m_outputs := outs\<rparr>) (other_expr\<lparr>m_outputs := outs'\<rparr>) i =
   Expr_sameAs_loop Val_sameAs self other_expr i"
proof (induction Val_sameAs self other_expr i rule: Expr_sameAs_loop.induct)
  case (1 Val_sameAs self other_expr i)
  have inp: "Expr_input (self\<lparr>m_outputs := outs\<rparr>) i = Expr_input self i"
    "Expr_input (other_expr\<lparr>m_outputs := outs'\<rparr>) i = Expr_input other_expr i"
    by (simp_all add: Expr_input_def)
  show ?case
    apply (subst Expr_sameAs_loop.simps)
    apply (subst (2) Expr_sameAs_loop.simps)
    using "1.IH" by (simp add: inp split: sum.splits)
qed


text \<open>
  Claim C6. For a live expression \<open>e\<close>: \<open>e.sameAs(e)\<close> is true. For another statement,
  \<open>sameAs\<close> is true iff that statement is an expression of the same operation kind,
  with as many inputs and as many outputs, whose inputs are pairwise the same as those
  of \<open>e\<close> under the equality of values. It is false when the numbers of inputs
  differ, whether or not the kinds match. The outputs count by their number only:
  replacing the outputs of both expressions by lists of the same lengths does not
  change the answer.
\<close>

theorem Expr_sameAs_structural:
  "derefExpr h this = Inr self \<Longrightarrow>
     Expr_sameAs Val_sameAs h this this = Inr True \<and>
     (\<forall>other. other \<noteq> this \<longrightarrow>
        (Expr_sameAs Val_sameAs h this other = Inr True \<longleftrightarrow>
           (\<exists>other_expr. h other = Some (ExprObj other_expr) \<and>
              m_type self = m_type other_expr \<and>
              length (m_inputs self) = length (m_inputs other_expr) \<and>
              length (m_outputs self) = length (m_outputs other_expr) \<and>
              (\<forall>j < length (m_inputs self).
                 Val_sameAs (m_inputs self ! j) (m_inputs other_expr ! j) = Inr True)))) \<and>
     (\<forall>other other_expr. other \<noteq> this \<and> h other = Some (ExprObj other_expr) \<and>
        length (m_inputs self) \<noteq> length (m_inputs other_expr) \<longrightarrow>
        Expr_sameAs Val_sameAs h this other = Inr False) \<and>
     (\<forall>other other_expr outs outs'. other \<noteq> this \<and> h other = Some (ExprObj other_expr) \<and>
        length outs = length (m_outputs self) \<and> length outs' = length (m_outputs other_expr) \<longrightarrow>
        Expr_sameAs Val_sameAs
          (h(this \<mapsto> ExprObj (self\<lparr>m_outputs := outs\<rparr>),
             other \<mapsto> ExprObj (other_expr\<lparr>m_outputs := outs'\<rparr>))) this other =
        Expr_sameAs Val_sameAs h this other)"
proof (intro conjI allI impI)
  assume s: "derefExpr h this = Inr self"
  show "Expr_sameAs Val_sameAs h this this = Inr True"
    using s by (simp add: Expr_sameAs_def)
  show "Expr_sameAs Val_sameAs h this other = Inr True \<longleftrightarrow>
           (\<exists>other_expr. h other = Some (ExprObj other_expr) \<and>
              m_type self = m_type other_expr \<and>
              length (m_inputs self) = length (m_inputs other_expr) \<and>
              length (m_outputs self) = length (m_outputs other_expr) \<and>
              (\<forall>j < length (m_inputs self).
                 Val_sameAs (m_inputs self ! j) (m_inputs other_expr ! j) = Inr True))"
    if "other \<noteq> this" for other
    using s that
    by (auto simp: Expr_sameAs_def Expr_sameAs_loop_True_iff split: option.splits obj.splits)
  show "Expr_sameAs Val_sameAs h this other = Inr False"
    if "other \<noteq> this \<and> h other = Some (ExprObj other_expr) \<and>
        length (m_inputs self) \<noteq> length (m_inputs other_expr)" for other other_expr
    using s that by (simp add: Expr_sameAs_def)
  show "Expr_sameAs Val_sameAs
          (h(this \<mapsto> ExprObj (self\<lparr>m_outputs := outs\<rparr>),
             other \<mapsto> ExprObj (other_expr\<lparr>m_outputs := outs'\<rparr>))) this other =
        Expr_sameAs Val_sameAs h this other"
    if "other \<noteq> this \<and> h other = Some (ExprObj other_expr) \<and>
        length outs = length (m_outputs self) \<and> length outs' = length (m_outputs other_expr)"
    for other other_expr outs outs'
    using s that
    by (simp add: Expr_sameAs_def derefExpr_def Expr_sameAs_loop_outputs)
qed

theorem Expr_sameAs_structural_witness:
  "derefExpr ex_heap_exprs 2 = Inr ex_add \<and>
   Expr_sameAs ex_Val_sameAs ex_heap_exprs 2 2 = Inr True \<and>
   ex_heap_exprs 12 = Some (ExprObj ex_add2) \<and> m_outputs ex_add2 \<noteq> m_outputs ex_add \<and>
   Expr_sameAs ex_Val_sameAs ex_heap_exprs 2 12 = Inr True \<and>
   ex_heap_exprs 14 = Some (ExprObj ex_short) \<and> m_type ex_short = m_type ex_add \<and>
   length (m_inputs ex_add) \<noteq> length (m_inputs ex_short) \<and>
   Expr_sameAs ex_Val_sameAs ex_heap_exprs 2 14 = Inr False \<and>
   Expr_sameAs ex_Val_sameAs
     (ex_heap_exprs(2 \<mapsto> ExprObj (ex_add\<lparr>m_outputs := [30]\<rparr>),
        12 \<mapsto> ExprObj (ex_add2\<lparr>m_outputs := [31]\<rparr>))) 2 12 = Inr True"
proof -
  have p: "derefExpr ex_heap_exprs 2 = Inr ex_add"
    "ex_heap_exprs 12 = Some (ExprObj ex_add2)" "ex_heap_exprs 14 = Some (ExprObj ex_short)"
    by (simp_all add: derefExpr_def ex_heap_exprs_def ex_heap_simps)
  have k: "m_outputs ex_add2 \<noteq> m_outputs ex_add" "m_type ex_short = m_type ex_add"
    "length (m_inputs ex_add) \<noteq> length (m_inputs ex_short)"
    "m_type ex_add = m_type ex_add2" "length (m_inputs ex_add) = length (m_inputs ex_add2)"
    "length (m_outputs ex_add) = length (m_outputs ex_add2)"
    "\<forall>j < length (m_inputs ex_add).
       ex_Val_sameAs (m_inputs ex_add ! j) (m_inputs ex_add2 ! j) = Inr True"
    "length [30::nat] = length (m_outputs ex_add)" "length [31::nat] = length (m_outputs ex_add2)"
    by (simp_all add: ex_add_def ex_add2_def ex_short_def ex_Val_sameAs_def)
  note t = Expr_sameAs_structural [OF p(1), of ex_Val_sameAs]
  have n: "(12::nat) \<noteq> 2" "(14::nat) \<noteq> 2" by simp_all
  from t have r: "Expr_sameAs ex_Val_sameAs ex_heap_exprs 2 2 = Inr True" by blast
  from t n(1) p(2) k(4-7) have a: "Expr_sameAs ex_Val_sameAs ex_heap_exprs 2 12 = Inr True"
    by blast
  from t n(2) p(3) k(3) have b: "Expr_sameAs ex_Val_sameAs ex_heap_exprs 2 14 = Inr False"
    by blast
  from t n(1) p(2) k(8,9)
  have "Expr_sameAs ex_Val_sameAs
     (ex_heap_exprs(2 \<mapsto> ExprObj (ex_add\<lparr>m_outputs := [30]\<rparr>),
        12 \<mapsto> ExprObj (ex_add2\<lparr>m_outputs := [31]\<rparr>))) 2 12 =
     Expr_sameAs ex_Val_sameAs ex_heap_exprs 2 12"
    by blast
  with a have c: "Expr_sameAs ex_Val_sameAs
     (ex_heap_exprs(2 \<mapsto> ExprObj (ex_add\<lparr>m_outputs := [30]\<rparr>),
        12 \<mapsto> ExprObj (ex_add2\<lparr>m_outputs := [31]\<rparr>))) 2 12 = Inr True"
    by simp
  from p k(1-3) r a b c show ?thesis by simp
qed

end
